theory Spec2Isabelle
  imports Main "HOL-Library.AList"
begin

section \<open>JavaScript values\<close>

text \<open>
  The engine of \<^verbatim>\<open>executeApiTool\<close> works on untyped JSON: tool arguments, response
  bodies and the merged result. A value is one of the JSON shapes, or \<^verbatim>\<open>undefined\<close>
  (what reading a missing property gives). An object is an association list, in the
  insertion order of its keys; numbers are integers (the engine only tests them for
  truthiness).
\<close>

datatype jsval =
    JUndefined
  | JNull
  | JBool bool
  | JNum int
  | JStr string
  | JArr "jsval list"
  | JObj "(string \<times> jsval) list"

text \<open>Truthiness, as \<^verbatim>\<open>!!v\<close>, \<^verbatim>\<open>a || b\<close> and \<^verbatim>\<open>if (v)\<close> see it.\<close>

fun truthy :: "jsval \<Rightarrow> bool" where
  "truthy JUndefined = False"
| "truthy JNull = False"
| "truthy (JBool b) = b"
| "truthy (JNum n) = (n \<noteq> 0)"
| "truthy (JStr s) = (s \<noteq> [])"
| "truthy (JArr xs) = True"
| "truthy (JObj kvs) = True"

definition js_or :: "jsval \<Rightarrow> jsval \<Rightarrow> jsval" where
  "js_or a b = (if truthy a then a else b)"

fun nullish :: "jsval \<Rightarrow> bool" where
  "nullish JUndefined = True"
| "nullish JNull = True"
| "nullish v = False"

fun isArray :: "jsval \<Rightarrow> bool" where
  "isArray (JArr xs) = True"
| "isArray v = False"

text \<open>
  \<^verbatim>\<open>v.k\<close> on a value that is neither null nor undefined. The keys the engine reads
  (\<^verbatim>\<open>records\<close>, \<^verbatim>\<open>calls\<close>, \<^verbatim>\<open>cursor\<close>, ...) are no members of the string, number,
  boolean or array prototypes, so only an object can hold them.
\<close>

fun js_prop :: "jsval \<Rightarrow> string \<Rightarrow> jsval" where
  "js_prop (JObj kvs) k = (case map_of kvs k of None \<Rightarrow> JUndefined | Some v \<Rightarrow> v)"
| "js_prop v k = JUndefined"

text \<open>\<^verbatim>\<open>v?.k\<close>: undefined on null and undefined, the property otherwise.\<close>

definition opt_prop :: "jsval \<Rightarrow> string \<Rightarrow> jsval" where
  "opt_prop v k = (if nullish v then JUndefined else js_prop v k)"

text \<open>Decimal digits of a number, as a template literal prints it.\<close>

fun show_nat :: "nat \<Rightarrow> string" where
  "show_nat n =
     (if n < 10 then [char_of (48 + n)]
      else show_nat (n div 10) @ [char_of (48 + n mod 10)])"

definition show_int :: "int \<Rightarrow> string" where
  "show_int i = (if i < 0 then CHR ''-'' # show_nat (nat (- i)) else show_nat (nat i))"

text \<open>
  \<^verbatim>\<open>[...v]\<close>: an array gives its elements, a string its characters, anything else is
  not iterable and the spread throws a TypeError.
\<close>

datatype js_type_error =
    NotIterable
  | CannotReadProperty string
  | CannotSetProperty string
  | CannotCreateProperty string
  | NotAFunction string
  | InOperatorOnPrimitive string

fun spread :: "jsval \<Rightarrow> js_type_error + jsval list" where
  "spread (JArr xs) = Inr xs"
| "spread (JStr s) = Inr (map (\<lambda>c. JStr [c]) s)"
| "spread v = Inl NotIterable"

text \<open>
  \<^verbatim>\<open>{...v}\<close>: the own enumerable properties. An array and a string give their index
  keys; null, undefined, numbers and booleans give none.
\<close>

fun enumerate_from :: "nat \<Rightarrow> jsval list \<Rightarrow> (string \<times> jsval) list" where
  "enumerate_from i [] = []"
| "enumerate_from i (x # xs) = (show_nat i, x) # enumerate_from (Suc i) xs"

fun spread_object :: "jsval \<Rightarrow> (string \<times> jsval) list" where
  "spread_object (JObj kvs) = kvs"
| "spread_object (JArr xs) = enumerate_from 0 xs"
| "spread_object (JStr s) = enumerate_from 0 (map (\<lambda>c. JStr [c]) s)"
| "spread_object v = []"

text \<open>
  \<^verbatim>\<open>v.k = x\<close> in strict code (the file is a module). On an object the key is
  updated in place or added last. On null and undefined, and on a string, number or
  boolean, the assignment throws a TypeError. On an array the assignment stores a named
  property that is no element of the array and that \<^verbatim>\<open>JSON.stringify\<close> does not print:
  the array is returned as it prints.
\<close>

fun assign_prop :: "jsval \<Rightarrow> string \<Rightarrow> jsval \<Rightarrow> js_type_error + jsval" where
  "assign_prop (JObj kvs) k x = Inr (JObj (AList.update k x kvs))"
| "assign_prop (JArr xs) k x = Inr (JArr xs)"
| "assign_prop JUndefined k x = Inl (CannotSetProperty k)"
| "assign_prop JNull k x = Inl (CannotSetProperty k)"
| "assign_prop v k x = Inl (CannotCreateProperty k)"

text \<open>\<^verbatim>\<open>k in v\<close>: a TypeError on anything but an object or an array.\<close>

fun in_operator :: "string \<Rightarrow> jsval \<Rightarrow> js_type_error + bool" where
  "in_operator k (JObj kvs) = Inr (k \<in> fst ` set kvs)"
| "in_operator k (JArr xs) = Inr False"
| "in_operator k v = Inl (InOperatorOnPrimitive k)"

text \<open>\<^verbatim>\<open>delete v.k\<close> on an object or array that passed the \<^verbatim>\<open>in\<close> test.\<close>

fun delete_prop :: "string \<Rightarrow> jsval \<Rightarrow> jsval" where
  "delete_prop k (JObj kvs) = JObj (AList.delete k kvs)"
| "delete_prop k v = v"

text \<open>The message of a runtime TypeError; the wording is the runtime's.\<close>

fun type_error_message :: "js_type_error \<Rightarrow> string" where
  "type_error_message NotIterable = ''object is not iterable''"
| "type_error_message (CannotReadProperty k) = ''Cannot read properties of null (reading '' @ k @ '')''"
| "type_error_message (CannotSetProperty k) = ''Cannot set properties of null (setting '' @ k @ '')''"
| "type_error_message (CannotCreateProperty k) = ''Cannot create property '' @ k"
| "type_error_message (NotAFunction k) = k @ '' is not a function''"
| "type_error_message (InOperatorOnPrimitive k) = ''Cannot use in operator to search for '' @ k"


section \<open>Errors and the error formatter\<close>

text \<open>
  An axios failure: the response of a non-2xx answer when there was one, whether a
  request was sent, the transport code when there is one, and the message.
\<close>

record http_response =
  status :: int
  statusText :: string
  response_data :: jsval

record axios_error =
  error_response :: "http_response option"
  error_request :: bool
  error_code :: "string option"
  error_message :: string

text \<open>What the \<^verbatim>\<open>try\<close> block of \<^verbatim>\<open>executeApiTool\<close> can throw.\<close>

datatype js_error =
    ZodError string
  | AxiosError axios_error
  | TypeError js_type_error
  | Error string

fun message :: "js_error \<Rightarrow> string" where
  "message (ZodError m) = m"
| "message (AxiosError e) = error_message e"
| "message (TypeError t) = type_error_message t"
| "message (Error m) = m"

text \<open>
  \<^verbatim>\<open>formatApiError\<close>. \<^verbatim>\<open>JSON.stringify\<close> is the runtime's: it is a parameter, \<open>None\<close>
  when it throws.
\<close>

definition MAX_LEN :: nat where
  "MAX_LEN = 200"

definition truncated :: "string \<Rightarrow> string" where
  "truncated s = take MAX_LEN s @ (if length s > MAX_LEN then ''...'' else [])"

definition formatApiError :: "(jsval \<Rightarrow> string option) \<Rightarrow> axios_error \<Rightarrow> string" where
  "formatApiError stringify error =
     (case error_response error of
        Some r \<Rightarrow>
          ''API Error: Status '' @ show_int (status r) @ '' (''
            @ (if statusText r \<noteq> [] then statusText r else ''Status text not available'')
            @ ''). ''
            @ (case response_data r of
                 JStr s \<Rightarrow> ''Response: '' @ truncated s
               | responseData \<Rightarrow>
                   if truthy responseData then
                     (case stringify responseData of
                        Some jsonString \<Rightarrow> ''Response: '' @ truncated jsonString
                      | None \<Rightarrow> ''Response: [Could not serialize data]'')
                   else ''No response body received.'')
      | None \<Rightarrow>
          if error_request error then
            ''API Network Error: No response received from server.''
              @ (case error_code error of
                   Some c \<Rightarrow> if c \<noteq> [] then '' (Code: '' @ c @ '')'' else []
                 | None \<Rightarrow> [])
          else ''API request failed.'' @ ''API Request Setup Error: '' @ error_message error)"

text \<open>
  The result of a tool call is one text content item. \<open>JsonText v\<close> stands for the
  text \<^verbatim>\<open>JSON.stringify(v, null, 2)\<close>; \<open>Text s\<close> is the text \<open>s\<close>.
\<close>

datatype CallToolResult = JsonText jsval | Text string

text \<open>The \<^verbatim>\<open>catch\<close> block of \<^verbatim>\<open>executeApiTool\<close>.\<close>

fun catch_error :: "(jsval \<Rightarrow> string option) \<Rightarrow> js_error \<Rightarrow> CallToolResult" where
  "catch_error stringify (ZodError m) = Text (''Validation error: '' @ m)"
| "catch_error stringify (AxiosError e) = Text (formatApiError stringify e)"
| "catch_error stringify e = Text (''Unexpected error: '' @ message e)"

section \<open>Tool definitions and input validation\<close>

text \<open>An execution parameter is a name and where it goes (\<^verbatim>\<open>path\<close> or \<^verbatim>\<open>query\<close>).\<close>

record McpToolDefinition =
  name :: string
  description :: string
  inputSchema :: jsval
  http_method :: string
  pathTemplate :: string
  executionParameters :: "(string \<times> string) list"
  requestBodyContentType :: "string option"

text \<open>
  A compiled Zod schema, seen through \<^verbatim>\<open>parse\<close>: the normalized value, or the message
  of the ZodError.
\<close>

type_synonym zod_schema = "jsval \<Rightarrow> string + jsval"

text \<open>\<^verbatim>\<open>z.object({}).passthrough()\<close>: any object passes, with all its keys.\<close>

fun passthrough_object :: zod_schema where
  "passthrough_object (JObj kvs) = Inr (JObj kvs)"
| "passthrough_object v = Inl ''Expected object''"

text \<open>
  \<^verbatim>\<open>getZodSchemaFromJsonSchema\<close>. The library call \<^verbatim>\<open>jsonSchemaToZod\<close> followed by
  \<^verbatim>\<open>eval\<close> is the parameter \<open>compile\<close>: \<open>None\<close> when either throws or when the value
  has no \<^verbatim>\<open>parse\<close>.
\<close>

fun typeof_object :: "jsval \<Rightarrow> bool" where
  "typeof_object (JObj kvs) = True"
| "typeof_object (JArr xs) = True"
| "typeof_object JNull = True"
| "typeof_object v = False"

definition getZodSchemaFromJsonSchema ::
  "(jsval \<Rightarrow> zod_schema option) \<Rightarrow> jsval \<Rightarrow> zod_schema" where
  "getZodSchemaFromJsonSchema compile jsonSchema =
     (if \<not> typeof_object jsonSchema \<or> jsonSchema = JNull then passthrough_object
      else case compile jsonSchema of
             Some zodSchema \<Rightarrow> zodSchema
           | None \<Rightarrow> passthrough_object)"

text \<open>What the engine takes from its platform.\<close>

record platform =
  jsonSchemaToZod :: "jsval \<Rightarrow> zod_schema option"
  JSON_stringify :: "jsval \<Rightarrow> string option"
  process_env :: "string \<Rightarrow> string option"

section \<open>OAuth2 configuration names\<close>






section \<open>The request builder\<close>

text \<open>
  One HTTP request, in the parts the engine assembles it from. The URL is kept
  structured: the path template, the path parameters substituted into it in order
  (each value goes through \<^verbatim>\<open>encodeURIComponent\<close>), and the query parameters handed to
  \<^verbatim>\<open>URLSearchParams\<close>. The Basic authorization header is kept as the pair it encodes.
\<close>

record http_request =
  request_method :: string
  request_path :: string
  path_values :: "(string \<times> jsval) list"
  queryParams :: "(string \<times> jsval) list"
  authorization :: "string \<times> string"
  content_type :: "string option"
  request_data :: jsval

definition path_substitutions :: "McpToolDefinition \<Rightarrow> jsval \<Rightarrow> (string \<times> jsval) list" where
  "path_substitutions defn validatedArgs =
     map (\<lambda>(n, loc). (n, js_prop validatedArgs n))
       (filter (\<lambda>(n, loc). loc = ''path'' \<and> js_prop validatedArgs n \<noteq> JUndefined)
          (executionParameters defn))"

definition query_parameters ::
  "McpToolDefinition \<Rightarrow> jsval \<Rightarrow> jsval \<Rightarrow> (string \<times> jsval) list" where
  "query_parameters defn validatedArgs currentCursor =
     (let q = fold (\<lambda>(n, loc) q.
                if loc = ''query'' \<and> js_prop validatedArgs n \<noteq> JUndefined
                then AList.update n (js_prop validatedArgs n) q else q)
              (executionParameters defn) []
      in if truthy currentCursor \<and> (''cursor'', ''query'') \<in> set (executionParameters defn)
         then AList.update ''cursor'' currentCursor q else q)"

definition has_body :: "McpToolDefinition \<Rightarrow> bool" where
  "has_body defn =
     (case requestBodyContentType defn of None \<Rightarrow> False | Some ct \<Rightarrow> ct \<noteq> [])"

definition request_body :: "McpToolDefinition \<Rightarrow> jsval \<Rightarrow> bool \<Rightarrow> jsval \<Rightarrow> jsval" where
  "request_body defn validatedArgs shouldPaginate currentCursor =
     (if has_body defn \<and> truthy (js_prop validatedArgs ''requestBody'') then
        (let requestBody = spread_object (js_prop validatedArgs ''requestBody'')
         in JObj (if truthy currentCursor \<and> shouldPaginate
                  then AList.update ''cursor'' currentCursor requestBody
                  else requestBody))
      else JUndefined)"

definition env_or_empty :: "(string \<Rightarrow> string option) \<Rightarrow> string \<Rightarrow> string" where
  "env_or_empty env k = (case env k of None \<Rightarrow> [] | Some v \<Rightarrow> v)"

definition build_request ::
  "platform \<Rightarrow> McpToolDefinition \<Rightarrow> jsval \<Rightarrow> bool \<Rightarrow> jsval \<Rightarrow> js_error + http_request" where
  "build_request pf defn validatedArgs shouldPaginate currentCursor =
     (let accessKey = env_or_empty (process_env pf) ''GONG_ACCESS_KEY'';
          secret = env_or_empty (process_env pf) ''GONG_SECRET''
      in if accessKey = [] \<or> secret = [] then
           Inl (Error ''Missing Gong credentials in environment'')
         else Inr \<lparr>
           request_method = http_method defn,
           request_path = pathTemplate defn,
           path_values = path_substitutions defn validatedArgs,
           queryParams = query_parameters defn validatedArgs currentCursor,
           authorization = (accessKey, secret),
           content_type = (if has_body defn then requestBodyContentType defn else None),
           request_data = request_body defn validatedArgs shouldPaginate currentCursor \<rparr>)"

section \<open>The pagination engine\<close>

text \<open>The ordered probe for the next cursor.\<close>

definition nextCursor :: "jsval \<Rightarrow> jsval" where
  "nextCursor response_data' =
     js_or (opt_prop (opt_prop response_data' ''records'') ''nextPageCursor'')
       (js_or (opt_prop response_data' ''nextPageCursor'')
          (js_or (opt_prop response_data' ''cursor'') JNull))"

record paginationInfo =
  hasMorePages :: bool
  totalPages :: int
  currentPage :: int

definition paginationInfo_json :: "paginationInfo \<Rightarrow> jsval" where
  "paginationInfo_json i =
     JObj [(''hasMorePages'', JBool (hasMorePages i)),
           (''totalPages'', JNum (totalPages i)),
           (''currentPage'', JNum (currentPage i))]"

text \<open>
  Appending a page's array under one field name:
  \<^verbatim>\<open>allData.f = [...allData.f, ...response.data.f]; allData.nextPageCursor = nextCursor\<close>.
\<close>

definition append_field :: "string \<Rightarrow> jsval \<Rightarrow> jsval \<Rightarrow> jsval \<Rightarrow> js_type_error + jsval" where
  "append_field f allData response_data' next =
     (case spread (js_prop allData f) of
        Inl e \<Rightarrow> Inl e
      | Inr old \<Rightarrow>
          (case spread (js_prop response_data' f) of
             Inl e \<Rightarrow> Inl e
           | Inr new \<Rightarrow>
               (case assign_prop allData f (JArr (old @ new)) of
                  Inl e \<Rightarrow> Inl e
                | Inr allData' \<Rightarrow> assign_prop allData' ''nextPageCursor'' next)))"

text \<open>
  The last branch:
  \<^verbatim>\<open>allData.additionalPages = allData.additionalPages || []; allData.additionalPages.push(response.data)\<close>.
  On an array both statements act on a named property that is not printed.
\<close>

definition push_additional :: "jsval \<Rightarrow> jsval \<Rightarrow> js_type_error + jsval" where
  "push_additional allData response_data' =
     (if isArray allData then Inr allData
      else case assign_prop allData ''additionalPages''
                  (js_or (js_prop allData ''additionalPages'') (JArr [])) of
             Inl e \<Rightarrow> Inl e
           | Inr allData' \<Rightarrow>
               (case js_prop allData' ''additionalPages'' of
                  JArr pages \<Rightarrow> assign_prop allData' ''additionalPages'' (JArr (pages @ [response_data']))
                | other \<Rightarrow> Inl (NotAFunction ''allData.additionalPages.push'')))"

text \<open>
  The merge of a later page into the accumulated data (the \<^verbatim>\<open>else\<close> of
  \<^verbatim>\<open>if (!allData)\<close>). Reading a property of a null or undefined page throws.
\<close>

definition is_array_field :: "jsval \<Rightarrow> string \<Rightarrow> bool" where
  "is_array_field v f = (truthy (js_prop v f) \<and> isArray (js_prop v f))"

definition merge_page :: "jsval \<Rightarrow> jsval \<Rightarrow> jsval \<Rightarrow> js_type_error + jsval" where
  "merge_page allData response_data' next =
     (if nullish response_data' then Inl (CannotReadProperty ''records'')
      else if is_array_field response_data' ''records'' then
        append_field ''records'' allData response_data' next
      else if is_array_field response_data' ''calls'' then
        append_field ''calls'' allData response_data' next
      else if is_array_field response_data' ''users'' then
        append_field ''users'' allData response_data' next
      else if is_array_field response_data' ''results'' then
        append_field ''results'' allData response_data' next
      else if isArray response_data' then
        (case spread allData of
           Inl e \<Rightarrow> Inl e
         | Inr old \<Rightarrow> (case spread response_data' of Inl e \<Rightarrow> Inl e | Inr new \<Rightarrow> Inr (JArr (old @ new))))
      else push_additional allData response_data')"

text \<open>The state of the \<^verbatim>\<open>do ... while\<close> loop.\<close>

record loop_state =
  allData :: jsval
  currentCursor :: jsval
  info :: paginationInfo

text \<open>What one iteration does with the body of a successful response.\<close>

definition process_page :: "bool \<Rightarrow> loop_state \<Rightarrow> jsval \<Rightarrow> js_error + loop_state" where
  "process_page shouldPaginate st response_data' =
     (let next = nextCursor response_data';
          more = (truthy next \<and> shouldPaginate);
          info' = (if more
                   then \<lparr> hasMorePages = more,
                          totalPages = totalPages (info st) + 1,
                          currentPage = currentPage (info st) + 1 \<rparr>
                   else (info st)\<lparr> hasMorePages := more \<rparr>)
      in case (if \<not> truthy (allData st) then Inr response_data'
               else merge_page (allData st) response_data' next) of
           Inl e \<Rightarrow> Inl (TypeError e)
         | Inr allData' \<Rightarrow>
             Inr \<lparr> allData = allData', currentCursor = next, info = info' \<rparr>)"

text \<open>
  The loop. The upstream is the list of its answers to the successive requests: the
  body of a 2xx response, or the error axios throws. The loop returns the requests it
  issued and how it ended; it returns \<open>None\<close> when it asks for one more answer than
  the list holds (the engine is still waiting).
\<close>

type_synonym http_outcome = "axios_error + jsval"

fun run_pages ::
  "platform \<Rightarrow> McpToolDefinition \<Rightarrow> jsval \<Rightarrow> bool \<Rightarrow> http_outcome list \<Rightarrow>
   http_request list \<Rightarrow> loop_state \<Rightarrow> (http_request list \<times> (js_error + loop_state)) option" where
  "run_pages pf d validatedArgs shouldPaginate [] reqs st =
     (case build_request pf d validatedArgs shouldPaginate (currentCursor st) of
        Inl e \<Rightarrow> Some (reqs, Inl e)
      | Inr config \<Rightarrow> None)"
| "run_pages pf d validatedArgs shouldPaginate (outcome # upstream) reqs st =
     (case build_request pf d validatedArgs shouldPaginate (currentCursor st) of
        Inl e \<Rightarrow> Some (reqs, Inl e)
      | Inr config \<Rightarrow>
          (case outcome of
             Inl e \<Rightarrow> Some (reqs @ [config], Inl (AxiosError e))
           | Inr response_data' \<Rightarrow>
               (case process_page shouldPaginate st response_data' of
                  Inl e \<Rightarrow> Some (reqs @ [config], Inl e)
                | Inr st' \<Rightarrow>
                    if truthy (currentCursor st') \<and> shouldPaginate
                    then run_pages pf d validatedArgs shouldPaginate upstream (reqs @ [config]) st'
                    else Some (reqs @ [config], Inr st'))))"

text \<open>\<^verbatim>\<open>toolArgs.paginate === true || toolArgs.paginate === "true"\<close>.\<close>

definition shouldPaginate :: "jsval \<Rightarrow> bool" where
  "shouldPaginate toolArgs =
     (js_prop toolArgs ''paginate'' = JBool True \<or> js_prop toolArgs ''paginate'' = JStr ''true'')"

text \<open>The validated arguments with the \<^verbatim>\<open>paginate\<close> key deleted.\<close>

definition strip_paginate :: "jsval \<Rightarrow> js_type_error + jsval" where
  "strip_paginate validatedArgs =
     (case in_operator ''paginate'' validatedArgs of
        Inl e \<Rightarrow> Inl e
      | Inr present \<Rightarrow>
          Inr (if present then delete_prop ''paginate'' validatedArgs else validatedArgs))"

text \<open>The cursor the caller passed, in the request body or at the top level.\<close>

definition initial_cursor :: "McpToolDefinition \<Rightarrow> jsval \<Rightarrow> jsval" where
  "initial_cursor defn validatedArgs =
     (if has_body defn \<and> truthy (js_prop validatedArgs ''requestBody'')
      then js_or (js_prop (js_prop validatedArgs ''requestBody'') ''cursor'') JNull
      else js_or (js_prop validatedArgs ''cursor'') JNull)"

definition initial_state :: "McpToolDefinition \<Rightarrow> jsval \<Rightarrow> loop_state" where
  "initial_state defn validatedArgs =
     \<lparr> allData = JNull,
       currentCursor = initial_cursor defn validatedArgs,
       info = \<lparr> hasMorePages = False, totalPages = 1, currentPage = 1 \<rparr> \<rparr>"

text \<open>
  The \<^verbatim>\<open>try\<close> block of \<^verbatim>\<open>executeApiTool\<close>: the requests issued, and the data with
  \<^verbatim>\<open>_paginationInfo\<close> attached or the error thrown.
\<close>

definition attach_info :: "loop_state \<Rightarrow> js_error + jsval" where
  "attach_info st =
     (case assign_prop (allData st) ''_paginationInfo'' (paginationInfo_json (info st)) of
        Inl e \<Rightarrow> Inl (TypeError e)
      | Inr v \<Rightarrow> Inr v)"

definition try_block ::
  "platform \<Rightarrow> McpToolDefinition \<Rightarrow> jsval \<Rightarrow> http_outcome list \<Rightarrow>
   (http_request list \<times> (js_error + jsval)) option" where
  "try_block pf defn toolArgs upstream =
     (case getZodSchemaFromJsonSchema (jsonSchemaToZod pf) (inputSchema defn) toolArgs of
        Inl m \<Rightarrow> Some ([], Inl (ZodError m))
      | Inr parsed \<Rightarrow>
          if nullish toolArgs then Some ([], Inl (TypeError (CannotReadProperty ''paginate'')))
          else case strip_paginate parsed of
                 Inl e \<Rightarrow> Some ([], Inl (TypeError e))
               | Inr validatedArgs \<Rightarrow>
                   (case run_pages pf defn validatedArgs (shouldPaginate toolArgs) upstream []
                           (initial_state defn validatedArgs) of
                      None \<Rightarrow> None
                    | Some (reqs, Inl e) \<Rightarrow> Some (reqs, Inl e)
                    | Some (reqs, Inr st) \<Rightarrow> Some (reqs, attach_info st)))"

text \<open>\<^verbatim>\<open>executeApiTool\<close>: the requests issued and the result returned to the caller.\<close>

definition executeApiTool ::
  "platform \<Rightarrow> McpToolDefinition \<Rightarrow> jsval \<Rightarrow> http_outcome list \<Rightarrow>
   (http_request list \<times> CallToolResult) option" where
  "executeApiTool pf defn toolArgs upstream =
     (case try_block pf defn toolArgs upstream of
        None \<Rightarrow> None
      | Some (reqs, Inl e) \<Rightarrow> Some (reqs, catch_error (JSON_stringify pf) e)
      | Some (reqs, Inr v) \<Rightarrow> Some (reqs, JsonText v))"

section \<open>The catalog and an example platform\<close>

text \<open>Two entries of \<^verbatim>\<open>toolDefinitionMap\<close>, with their input schemas.\<close>

definition string_type :: jsval where
  "string_type = JObj [(''type'', JStr ''string'')]"



definition paginate_schema :: jsval where
  "paginate_schema =
     JObj [(''type'', JStr ''boolean''),
           (''description'', JStr ''Whether to automatically fetch all pages'')]"




definition getv2users :: McpToolDefinition where
  "getv2users = \<lparr>
     name = ''getv2users'',
     description = ''List Gong users (100-row pages)'',
     inputSchema = JObj [(''type'', JStr ''object''),
        (''properties'', JObj [(''cursor'', string_type), (''paginate'', paginate_schema)])],
     http_method = ''get'',
     pathTemplate = ''/v2/users'',
     executionParameters = [(''cursor'', ''query'')],
     requestBodyContentType = None \<rparr>"


text \<open>
  A platform for the examples: the two credentials are set, and schema compilation
  fails, so that every tool validates with the permissive schema.
\<close>

definition example_platform :: platform where
  "example_platform = \<lparr>
     jsonSchemaToZod = (\<lambda>jsonSchema. None),
     JSON_stringify = (\<lambda>v. None),
     process_env = [''GONG_ACCESS_KEY'' \<mapsto> ''key'', ''GONG_SECRET'' \<mapsto> ''secret''] \<rparr>"

text \<open>Both Gong credentials are set and not empty.\<close>

definition has_credentials :: "platform \<Rightarrow> bool" where
  "has_credentials pf =
     (env_or_empty (process_env pf) ''GONG_ACCESS_KEY'' \<noteq> [] \<and>
      env_or_empty (process_env pf) ''GONG_SECRET'' \<noteq> [])"



text \<open>The error axios throws for a 404 answer with the JSON body \<^verbatim>\<open>{"message":"not found"}\<close>.\<close>

definition not_found_error :: axios_error where
  "not_found_error = \<lparr>
     error_response = Some \<lparr> status = 404, statusText = ''Not Found'',
        response_data = JObj [(''message'', JStr ''not found'')] \<rparr>,
     error_request = True,
     error_code = Some ''ERR_BAD_REQUEST'',
     error_message = ''Request failed with status code 404'' \<rparr>"



section \<open>Basic facts about the engine\<close>

lemma nextCursor_not_truthy: "\<not> truthy (nextCursor d) \<Longrightarrow> nextCursor d = JNull"
  by (simp add: nextCursor_def js_or_def split: if_splits)

text \<open>Only an object can carry a cursor, so a merge always runs on an object.\<close>

lemma nextCursor_truthy_object: "truthy (nextCursor d) \<Longrightarrow> \<exists>kvs. d = JObj kvs"
  by (cases d) (simp_all add: nextCursor_def js_or_def opt_prop_def)

lemma nextCursor_non_object: "(\<And>kvs. d \<noteq> JObj kvs) \<Longrightarrow> nextCursor d = JNull"
  using nextCursor_truthy_object nextCursor_not_truthy by blast

lemma process_page_cursor:
  "process_page sp st d = Inr st' \<Longrightarrow> currentCursor st' = nextCursor d"
  by (auto simp: process_page_def Let_def split: sum.splits if_splits)


lemma build_request_ok:
  "has_credentials pf \<Longrightarrow> \<exists>config. build_request pf d va sp c = Inr config"
  by (simp add: has_credentials_def build_request_def Let_def)

lemma strip_paginate_object:
  "strip_paginate (JObj parsed) = Inr (JObj (AList.delete ''paginate'' parsed))"
  by (simp add: strip_paginate_def delete_id [symmetric] del: delete_id)







section \<open>One turn of the loop\<close>

lemma process_page_first:
  "\<not> truthy (allData st) \<Longrightarrow>
   process_page sp st page =
     Inr \<lparr> allData = page, currentCursor = nextCursor page,
           info = (if truthy (nextCursor page) \<and> sp
               then \<lparr> hasMorePages = True, totalPages = totalPages (info st) + 1,
                      currentPage = currentPage (info st) + 1 \<rparr>
               else (info st)\<lparr> hasMorePages := False \<rparr>) \<rparr>"
  by (simp add: process_page_def Let_def)


lemma run_pages_last:
  assumes "build_request pf d va sp (currentCursor st) = Inr config"
    and "process_page sp st page = Inr st'"
    and "\<not> (truthy (nextCursor page) \<and> sp)"
  shows "run_pages pf d va sp (Inr page # upstream) reqs st = Some (reqs @ [config], Inr st')"
  using assms process_page_cursor [OF assms(2)] by auto



declare run_pages.simps [simp del]

section \<open>The try block after validation\<close>

lemma try_block_validated:
  assumes "getZodSchemaFromJsonSchema (jsonSchemaToZod pf) (inputSchema defn) (JObj args)
             = Inr (JObj parsed)"
  shows "try_block pf defn (JObj args) upstream =
     (case run_pages pf defn (JObj (AList.delete ''paginate'' parsed)) (shouldPaginate (JObj args))
             upstream [] (initial_state defn (JObj (AList.delete ''paginate'' parsed))) of
        None \<Rightarrow> None
      | Some (reqs, Inl e) \<Rightarrow> Some (reqs, Inl e)
      | Some (reqs, Inr st) \<Rightarrow> Some (reqs, attach_info st))"
  using assms by (simp add: try_block_def strip_paginate_object)

(* C10 *)

lemma executeApiTool_waiting:
  assumes "executeApiTool pf defn toolArgs upstream = None"
  shows "\<exists>parsed va.
     getZodSchemaFromJsonSchema (jsonSchemaToZod pf) (inputSchema defn) toolArgs = Inr parsed \<and>
     \<not> nullish toolArgs \<and> strip_paginate parsed = Inr va \<and>
     run_pages pf defn va (shouldPaginate toolArgs) upstream [] (initial_state defn va) = None"
  using assms
  by (auto simp: executeApiTool_def try_block_def
      split: sum.splits if_splits option.splits prod.splits)

lemma executeApiTool_thrown:
  "try_block pf defn toolArgs upstream = Some (reqs, Inl e) \<Longrightarrow>
   executeApiTool pf defn toolArgs upstream = Some (reqs, catch_error (JSON_stringify pf) e)"
  by (simp add: executeApiTool_def)

lemma run_pages_error_after:
  "run_pages pf d va sp (map Inr pages) reqs st = None \<Longrightarrow>
   \<exists>reqs'. run_pages pf d va sp (map Inr pages @ Inl e # rest) reqs st
              = Some (reqs', Inl (AxiosError e)) \<and>
            length reqs' = length reqs + length pages + 1"
proof (induction pages arbitrary: reqs st)
  case Nil
  then obtain config where "build_request pf d va sp (currentCursor st) = Inr config"
    by (auto simp: run_pages.simps split: sum.splits)
  then show ?case by (simp add: run_pages.simps)
next
  case (Cons page pages)
  from Cons.prems obtain config where
    b: "build_request pf d va sp (currentCursor st) = Inr config"
    by (auto simp: run_pages.simps split: sum.splits)
  from Cons.prems b obtain st1 where p: "process_page sp st page = Inr st1"
    by (cases "process_page sp st page") (auto simp: run_pages.simps)
  from Cons.prems b p have more: "truthy (currentCursor st1) \<and> sp"
    and r: "run_pages pf d va sp (map Inr pages) (reqs @ [config]) st1 = None"
    by (auto simp: run_pages.simps split: if_splits)
  from Cons.IH [OF r] b p more show ?case
    by (simp add: run_pages.simps)
qed

section \<open>Merging\<close>










section \<open>What a request is built from\<close>








section \<open>The permissive schema\<close>



lemma example_platform_credentials: "has_credentials example_platform"
  by (simp add: has_credentials_def example_platform_def env_or_empty_def)

lemma example_platform_validates:
  "getZodSchemaFromJsonSchema (jsonSchemaToZod example_platform) (inputSchema defn) (JObj args)
     = Inr (JObj args)"
  by (simp add: getZodSchemaFromJsonSchema_def example_platform_def)

section \<open>Properties of the specification\<close>



text \<open>
  C2, as amended. The next cursor is the first truthy value among
  \<^verbatim>\<open>records.nextPageCursor\<close>, \<^verbatim>\<open>nextPageCursor\<close> and \<^verbatim>\<open>cursor\<close>, in that order, and
  null when none is truthy. In particular a response whose \<^verbatim>\<open>records.nextPageCursor\<close>
  is truthy yields that value, whatever its top-level \<^verbatim>\<open>cursor\<close> is.
\<close>

theorem cursor_probe_first_truthy:
  "nextCursor r =
     (if truthy (opt_prop (opt_prop r ''records'') ''nextPageCursor'')
      then opt_prop (opt_prop r ''records'') ''nextPageCursor''
      else if truthy (opt_prop r ''nextPageCursor'') then opt_prop r ''nextPageCursor''
      else if truthy (opt_prop r ''cursor'') then opt_prop r ''cursor''
      else JNull)
   \<and> (\<forall>kvs recs v c.
         r = JObj kvs \<and> map_of kvs ''records'' = Some (JObj recs) \<and>
         map_of recs ''nextPageCursor'' = Some v \<and> truthy v \<and>
         map_of kvs ''cursor'' = Some c
         \<longrightarrow> nextCursor r = v)"
  by (auto simp: nextCursor_def js_or_def opt_prop_def)

theorem cursor_probe_first_truthy_witness:
  "nextCursor (JObj [(''records'', JObj [(''nextPageCursor'', JStr ''n1'')]),
                     (''cursor'', JStr ''c1'')]) = JStr ''n1''"
proof -
  let ?recs = "[(''nextPageCursor'', JStr ''n1'')]"
  let ?kvs = "[(''records'', JObj ?recs), (''cursor'', JStr ''c1'')]"
  have h: "JObj ?kvs = JObj ?kvs \<and> map_of ?kvs ''records'' = Some (JObj ?recs) \<and>
           map_of ?recs ''nextPageCursor'' = Some (JStr ''n1'') \<and> truthy (JStr ''n1'') \<and>
           map_of ?kvs ''cursor'' = Some (JStr ''c1'')"
    by simp
  from cursor_probe_first_truthy [of "JObj ?kvs"] h show ?thesis by blast
qed

text \<open>
  C2, as stated, fails: a response holding both \<^verbatim>\<open>records.nextPageCursor\<close> (the empty
  string) and a top-level \<^verbatim>\<open>cursor\<close> yields the top-level cursor.
\<close>

theorem cursor_probe_present_counterexample:
  "opt_prop (opt_prop (JObj [(''records'', JObj [(''nextPageCursor'', JStr [])]),
                             (''cursor'', JStr ''abc'')]) ''records'') ''nextPageCursor''
     = JStr []
   \<and> nextCursor (JObj [(''records'', JObj [(''nextPageCursor'', JStr [])]),
                       (''cursor'', JStr ''abc'')]) = JStr ''abc''"
  by (simp add: nextCursor_def js_or_def opt_prop_def)












text \<open>
  C7. Every failure ends as a text result. A validation failure gives
  \<^verbatim>\<open>Validation error: ...\<close> and no request. When the engine, after any number of
  successful pages, asks for one more page and that request fails, the result is the
  formatted API error alone, whatever was merged before. And whatever the \<^verbatim>\<open>try\<close>
  block throws is turned into a text by the \<^verbatim>\<open>catch\<close> block: nothing is thrown further.
  (A call that is \<open>None\<close> on the pages given is one still waiting for a next page.)
\<close>

theorem errors_become_text:
  "(\<forall>m. getZodSchemaFromJsonSchema (jsonSchemaToZod pf) (inputSchema defn) toolArgs = Inl m \<longrightarrow>
        executeApiTool pf defn toolArgs upstream = Some ([], Text (''Validation error: '' @ m)))
   \<and> (\<forall>pages e rest.
        executeApiTool pf defn toolArgs (map Inr pages) = None \<longrightarrow>
        (\<exists>reqs. executeApiTool pf defn toolArgs (map Inr pages @ Inl e # rest)
                  = Some (reqs, Text (formatApiError (JSON_stringify pf) e)) \<and>
                length reqs = length pages + 1))
   \<and> (\<forall>reqs e.
        try_block pf defn toolArgs upstream = Some (reqs, Inl e) \<longrightarrow>
        (\<exists>t. executeApiTool pf defn toolArgs upstream = Some (reqs, Text t) \<and>
             (case e of
                ZodError m \<Rightarrow> t = ''Validation error: '' @ m
              | AxiosError ae \<Rightarrow> t = formatApiError (JSON_stringify pf) ae
              | _ \<Rightarrow> t = ''Unexpected error: '' @ message e)))"
proof (intro conjI allI impI)
  fix m
  assume "getZodSchemaFromJsonSchema (jsonSchemaToZod pf) (inputSchema defn) toolArgs = Inl m"
  then show "executeApiTool pf defn toolArgs upstream = Some ([], Text (''Validation error: '' @ m))"
    by (simp add: executeApiTool_def try_block_def)
next
  fix pages e rest
  assume "executeApiTool pf defn toolArgs (map Inr pages) = None"
  from executeApiTool_waiting [OF this] obtain parsed va where
    v: "getZodSchemaFromJsonSchema (jsonSchemaToZod pf) (inputSchema defn) toolArgs = Inr parsed"
    and n: "\<not> nullish toolArgs" and s: "strip_paginate parsed = Inr va"
    and r: "run_pages pf defn va (shouldPaginate toolArgs) (map Inr pages) []
              (initial_state defn va) = None"
    by blast
  from run_pages_error_after [OF r, of e rest] obtain reqs where
    "run_pages pf defn va (shouldPaginate toolArgs) (map Inr pages @ Inl e # rest) []
       (initial_state defn va) = Some (reqs, Inl (AxiosError e))"
    and "length reqs = length pages + 1"
    by auto
  with v n s
  show "\<exists>reqs. executeApiTool pf defn toolArgs (map Inr pages @ Inl e # rest)
                  = Some (reqs, Text (formatApiError (JSON_stringify pf) e)) \<and>
                length reqs = length pages + 1"
    by (simp add: executeApiTool_def try_block_def)
next
  fix reqs e
  assume "try_block pf defn toolArgs upstream = Some (reqs, Inl e)"
  from executeApiTool_thrown [OF this]
  show "\<exists>t. executeApiTool pf defn toolArgs upstream = Some (reqs, Text t) \<and>
             (case e of
                ZodError m \<Rightarrow> t = ''Validation error: '' @ m
              | AxiosError ae \<Rightarrow> t = formatApiError (JSON_stringify pf) ae
              | _ \<Rightarrow> t = ''Unexpected error: '' @ message e)"
    by (cases e) simp_all
qed

theorem errors_become_text_witness:
  "executeApiTool example_platform getv2users (JArr []) []
     = Some ([], Text (''Validation error: '' @ ''Expected object''))
   \<and> (\<exists>reqs. executeApiTool example_platform getv2users (JObj [(''paginate'', JBool True)])
                 (map Inr [JObj [(''users'', JArr []), (''cursor'', JStr ''n'')]]
                    @ Inl not_found_error # [])
                = Some (reqs, Text (formatApiError (JSON_stringify example_platform) not_found_error))
              \<and> length reqs = length [JObj [(''users'', JArr []), (''cursor'', JStr ''n'')]] + 1)
   \<and> (\<exists>t. executeApiTool example_platform getv2users (JArr []) [] = Some ([], Text t) \<and>
           t = ''Validation error: '' @ ''Expected object'')"
proof -
  have v: "getZodSchemaFromJsonSchema (jsonSchemaToZod example_platform) (inputSchema getv2users)
             (JArr []) = Inl ''Expected object''"
    by (simp add: getZodSchemaFromJsonSchema_def example_platform_def)
  have w: "executeApiTool example_platform getv2users (JObj [(''paginate'', JBool True)])
             (map Inr [JObj [(''users'', JArr []), (''cursor'', JStr ''n'')]]) = None"
    by code_simp
  have tb: "try_block example_platform getv2users (JArr []) []
              = Some ([], Inl (ZodError ''Expected object''))"
    by (simp add: try_block_def v)
  note a = errors_become_text [of example_platform getv2users "JArr []" "[]"]
  note b = errors_become_text [of example_platform getv2users "JObj [(''paginate'', JBool True)]" "[]"]
  from a v have 1: "executeApiTool example_platform getv2users (JArr []) []
     = Some ([], Text (''Validation error: '' @ ''Expected object''))"
    by blast
  from b have "\<forall>pages e rest.
        executeApiTool example_platform getv2users (JObj [(''paginate'', JBool True)]) (map Inr pages) = None \<longrightarrow>
        (\<exists>reqs. executeApiTool example_platform getv2users (JObj [(''paginate'', JBool True)]) (map Inr pages @ Inl e # rest)
                  = Some (reqs, Text (formatApiError (JSON_stringify example_platform) e)) \<and>
                length reqs = length pages + 1)"
    by blast
  from this [rule_format, OF w, of not_found_error "[]"]
  have 2: "\<exists>reqs. executeApiTool example_platform getv2users (JObj [(''paginate'', JBool True)])
                 (map Inr [JObj [(''users'', JArr []), (''cursor'', JStr ''n'')]]
                    @ Inl not_found_error # [])
                = Some (reqs, Text (formatApiError (JSON_stringify example_platform) not_found_error))
              \<and> length reqs = length [JObj [(''users'', JArr []), (''cursor'', JStr ''n'')]] + 1" .
  from a have "\<forall>reqs e.
        try_block example_platform getv2users (JArr []) [] = Some (reqs, Inl e) \<longrightarrow>
        (\<exists>t. executeApiTool example_platform getv2users (JArr []) [] = Some (reqs, Text t) \<and>
             (case e of
                ZodError m \<Rightarrow> t = ''Validation error: '' @ m
              | AxiosError ae \<Rightarrow> t = formatApiError (JSON_stringify example_platform) ae
              | _ \<Rightarrow> t = ''Unexpected error: '' @ message e))"
    by blast
  from this [rule_format, OF tb]
  have 3: "\<exists>t. executeApiTool example_platform getv2users (JArr []) [] = Some ([], Text t) \<and>
           t = ''Validation error: '' @ ''Expected object''"
    by simp
  from 1 2 3 show ?thesis by blast
qed




text \<open>
  C10. When the request succeeds with a body that is neither a JSON object nor an array
  (null, a string, a number, a boolean, or no body), attaching \<^verbatim>\<open>_paginationInfo\<close>
  throws, and the caller receives \<^verbatim>\<open>Unexpected error: ...\<close> instead of the body,
  whether pagination was requested or not.
\<close>

theorem non_container_body_unexpected_error:
  assumes valid: "getZodSchemaFromJsonSchema (jsonSchemaToZod pf) (inputSchema defn) (JObj args)
             = Inr (JObj parsed)"
    and creds: "has_credentials pf"
    and nobj: "\<forall>kvs. body \<noteq> JObj kvs" and narr: "\<forall>xs. body \<noteq> JArr xs"
  shows "\<exists>config msg. executeApiTool pf defn (JObj args) (Inr body # upstream)
           = Some ([config], Text (''Unexpected error: '' @ msg))"
proof -
  let ?va = "JObj (AList.delete ''paginate'' parsed)"
  let ?sp = "shouldPaginate (JObj args)"
  let ?st = "initial_state defn ?va"
  obtain config where b: "build_request pf defn ?va ?sp (currentCursor ?st) = Inr config"
    using build_request_ok [OF creds] by blast
  have n: "nextCursor body = JNull"
    using nobj by (intro nextCursor_non_object) simp
  have p: "process_page ?sp ?st body =
             Inr \<lparr> allData = body, currentCursor = JNull,
                   info = \<lparr> hasMorePages = False, totalPages = 1, currentPage = 1 \<rparr> \<rparr>"
    by (simp add: process_page_first n initial_state_def)
  have r: "run_pages pf defn ?va ?sp (Inr body # upstream) [] ?st
             = Some ([config], Inr \<lparr> allData = body, currentCursor = JNull,
                   info = \<lparr> hasMorePages = False, totalPages = 1, currentPage = 1 \<rparr> \<rparr>)"
    using run_pages_last [OF b p, of upstream "[]"] n by simp
  obtain t where a: "assign_prop body ''_paginationInfo''
        (paginationInfo_json \<lparr> hasMorePages = False, totalPages = 1, currentPage = 1 \<rparr>) = Inl t"
    using nobj narr by (cases body) simp_all
  have "executeApiTool pf defn (JObj args) (Inr body # upstream)
          = Some ([config], Text (''Unexpected error: '' @ type_error_message t))"
    by (simp add: executeApiTool_def try_block_validated [OF valid] r attach_info_def a)
  then show ?thesis by blast
qed

(* C3 *)

theorem non_container_body_unexpected_error_witness:
  "\<exists>config msg. executeApiTool example_platform getv2users (JObj []) [Inr JNull]
           = Some ([config], Text (''Unexpected error: '' @ msg))"
proof -
  have "\<forall>kvs. JNull \<noteq> JObj kvs" and "\<forall>xs. JNull \<noteq> JArr xs"
    by simp_all
  from non_container_body_unexpected_error [OF example_platform_validates
      example_platform_credentials this, of getv2users "[]"]
  show ?thesis .
qed

end
